theory Spec2Isabelle
  imports Main
begin

section \<open>Mongo TV: the change-stream relay of server.js\<close>

text \<open>
  The server keeps four globals (\<open>clients\<close>, \<open>mongoClient\<close>, \<open>currentChangeStream\<close>,
  \<open>currentWatchDescription\<close>) and reacts to events: WebSocket connections and messages,
  change-stream notifications and errors, and the settling of awaited promises.
  Each handler is a function from the state to the new state and the list of effects
  (calls on sockets, on the MongoDB driver, on the console and on timers) it performs,
  in the order the source performs them.
\<close>

subsection \<open>JavaScript values\<close>

text \<open>
  Documents as the driver hands them over. \<open>Binary\<close> and \<open>ObjectId\<close> are the BSON class
  instances whose \<open>_bsontype\<close> is \<open>'Binary'\<close> and \<open>'ObjectId'\<close>; \<open>Obj\<close> lists the own
  enumerable properties of a plain object in enumeration order. Numbers are restricted
  to integers and strings to ASCII; no value is a function.
\<close>

datatype jsval =
    Undefined
  | Null
  | Bool bool
  | Num int
  | Str string
  | Date string
  | Buffer "nat list"
  | Binary "nat list"
  | ObjectId string
  | Arr "jsval list"
  | Obj "(string \<times> jsval) list"

text \<open>What \<open>if (v)\<close> and \<open>v || d\<close> test.\<close>

fun truthy :: "jsval \<Rightarrow> bool" where
  "truthy Undefined = False"
| "truthy Null = False"
| "truthy (Bool b) = b"
| "truthy (Num n) = (n \<noteq> 0)"
| "truthy (Str s) = (s \<noteq> [])"
| "truthy v = True"

text \<open>A string that may be missing (\<open>undefined\<close>): truthy when present and not empty.\<close>

fun truthy_str :: "string option \<Rightarrow> bool" where
  "truthy_str None = False"
| "truthy_str (Some s) = (s \<noteq> [])"

text \<open>The text a template literal inserts for such a string, once it is known to be truthy.\<close>

fun str_of :: "string option \<Rightarrow> string" where
  "str_of None = ''undefined''"
| "str_of (Some s) = s"

definition to_upper_char :: "char \<Rightarrow> char" where
  "to_upper_char c =
     (case map_of (zip ''abcdefghijklmnopqrstuvwxyz'' ''ABCDEFGHIJKLMNOPQRSTUVWXYZ'') c of
        Some u \<Rightarrow> u
      | None \<Rightarrow> c)"

definition toUpperCase :: "string \<Rightarrow> string" where
  "toUpperCase s = map to_upper_char s"

subsection \<open>formatChangeEvent\<close>

record namespace_id =
  db :: "string option"
  coll :: "string option"

text \<open>The raw change event: the properties \<open>formatChangeEvent\<close> reads.\<close>

record change =
  operationType :: string
  ns :: "namespace_id option"
  documentKey :: jsval
  fullDocument :: jsval
  updateDescription :: jsval

text \<open>
  \<open>operationMap\<close> is an object literal, so \<open>operationMap[tag]\<close> also finds the members
  every object inherits from \<open>Object.prototype\<close>; they are functions (or, for
  \<open>__proto__\<close>, the prototype itself), all truthy and none a string.
\<close>

datatype opval = OpName string | OpInherited string

definition Object_prototype_members :: "string list" where
  "Object_prototype_members =
     [''constructor'', ''__defineGetter__'', ''__defineSetter__'', ''hasOwnProperty'',
      ''__lookupGetter__'', ''__lookupSetter__'', ''isPrototypeOf'',
      ''propertyIsEnumerable'', ''toString'', ''valueOf'', ''__proto__'',
      ''toLocaleString'']"

definition operationMap :: "(string \<times> string) list" where
  "operationMap =
     [(''insert'', ''INSERT''), (''update'', ''UPDATE''), (''replace'', ''REPLACE''),
      (''delete'', ''DELETE''), (''drop'', ''DROP''), (''invalidate'', ''INVALIDATE'')]"

definition operation_of :: "string \<Rightarrow> opval" where
  "operation_of tag =
     (case map_of operationMap tag of
        Some name \<Rightarrow> OpName name
      | None \<Rightarrow>
          if tag \<in> set Object_prototype_members then OpInherited tag
          else OpName (toUpperCase tag))"

definition or_unknown :: "string option \<Rightarrow> string" where
  "or_unknown s = (if truthy_str s then str_of s else ''unknown'')"

record formatted =
  operation :: opval
  timestamp :: string
  namespace :: string
  f_documentKey :: jsval
  document :: jsval
  updates :: jsval

text \<open>
  \<open>now\<close> is what \<open>new Date().toISOString()\<close> returns at the call. A property that is
  not set reads as \<open>Undefined\<close>.
\<close>

definition formatChangeEvent :: "string \<Rightarrow> change \<Rightarrow> formatted" where
  "formatChangeEvent now c =
     \<lparr> operation = operation_of (operationType c),
       timestamp = now,
       namespace =
         (case ns c of None \<Rightarrow> ''unknown'' | Some n \<Rightarrow> or_unknown (db n)) @ ''.'' @
         (case ns c of None \<Rightarrow> ''unknown'' | Some n \<Rightarrow> or_unknown (coll n)),
       f_documentKey = documentKey c,
       document = (if truthy (fullDocument c) then fullDocument c else Undefined),
       updates = (if truthy (updateDescription c) then updateDescription c else Undefined) \<rparr>"

subsection \<open>cleanForYaml and toYaml\<close>

text \<open>
  \<open>None\<close> is a thrown TypeError: \<open>obj.toString()\<close> on a plain object that carries
  \<open>_bsontype: 'ObjectId'\<close> and an own property \<open>toString\<close>, which no value of the model
  makes callable. Assigning \<open>newObj['__proto__']\<close> goes through the inherited setter
  and creates no own property, so that key is absent from the copy.
\<close>

function cleanForYaml :: "jsval \<Rightarrow> jsval option" where
  "cleanForYaml (Binary b) = Some (Buffer b)"
| "cleanForYaml (ObjectId h) = Some (Str h)"
| "cleanForYaml (Arr xs) = map_option Arr (those (map cleanForYaml xs))"
| "cleanForYaml (Obj kvs) =
     (if map_of kvs ''_bsontype'' = Some (Str ''Binary'') then
        Some (case map_of kvs ''buffer'' of None \<Rightarrow> Undefined | Some b \<Rightarrow> b)
      else if map_of kvs ''_bsontype'' = Some (Str ''ObjectId'') then
        (if map_of kvs ''toString'' = None then Some (Str ''[object Object]'') else None)
      else
        map_option (\<lambda>vs. Obj (filter (\<lambda>kv. fst kv \<noteq> ''__proto__'') (zip (map fst kvs) vs)))
          (those (map (\<lambda>kv. cleanForYaml (snd kv)) kvs)))"
| "cleanForYaml Undefined = Some Undefined"
| "cleanForYaml Null = Some Null"
| "cleanForYaml (Bool b) = Some (Bool b)"
| "cleanForYaml (Num n) = Some (Num n)"
| "cleanForYaml (Str s) = Some (Str s)"
| "cleanForYaml (Date d) = Some (Date d)"
| "cleanForYaml (Buffer b) = Some (Buffer b)"
  by pat_completeness auto
termination
proof (relation "measure size")
  show "wf (measure size)"
    by simp
next
  fix xs :: "jsval list" and x
  assume "x \<in> set xs"
  then have "size x < Suc (size_list size xs)"
    by (induction xs) auto
  then show "(x, Arr xs) \<in> measure size"
    by simp
next
  fix kvs :: "(string \<times> jsval) list" and kv
  assume "kv \<in> set kvs"
  then have "size (snd kv) < Suc (size_list (size_prod (\<lambda>k. 0) size) kvs)"
    by (induction kvs) auto
  then show "(snd kv, Obj kvs) \<in> measure size"
    by simp
qed

text \<open>
  \<open>dump\<close> is js-yaml's \<open>yaml.dump\<close>, taken to return a text for every value and
  every choice of the options the source passes.
\<close>

record dump_options =
  indent :: int
  lineWidth :: int
  noRefs :: bool
  sortKeys :: bool

definition toYaml :: "(dump_options \<Rightarrow> jsval \<Rightarrow> string) \<Rightarrow> jsval \<Rightarrow> string option" where
  "toYaml dump obj =
     map_option (dump \<lparr> indent = 2, lineWidth = - 1, noRefs = True, sortKeys = False \<rparr>)
       (cleanForYaml obj)"

subsection \<open>The rendering as the specification words it\<close>



subsection \<open>Sockets, streams and effects\<close>

type_synonym conn = nat
type_synonym stream = nat

datatype ready_state = CONNECTING | OPEN | CLOSING | CLOSED

text \<open>What \<open>watch\<close> is called on: a collection, a database or the client itself.\<close>

datatype watch_target = Collection string string | Database string | Deployment

text \<open>The objects handed to \<open>JSON.stringify\<close> and sent to viewers, by their \<open>type\<close>.\<close>

datatype message =
    MsgWelcome string
  | MsgStatus string string
  | MsgChange opval string string string jsval formatted
  | MsgError string

text \<open>
  An effect is a call the program makes: \<open>Send ws m\<close> is \<open>ws.send\<close> of the serialised
  \<open>m\<close>, \<open>StreamClose s\<close> is \<open>s.close()\<close>, \<open>StreamOpen s t\<close> is the \<open>watch\<close> call on \<open>t\<close>
  that returned the change stream \<open>s\<close>, \<open>ClientConnect k\<close> is \<open>connect()\<close> on the
  \<open>k\<close>-th \<open>MongoClient\<close>, \<open>SetTimeout d\<close> schedules \<open>connectMongoDB\<close> after \<open>d\<close> ms,
  \<open>OnSigint\<close> registers the shutdown handler, and \<open>Uncaught\<close> is an exception that
  leaves an event listener.
\<close>

datatype effect =
    Send conn message
  | StreamClose stream
  | StreamOpen stream watch_target
  | ClientConnect nat
  | SetTimeout nat
  | OnSigint
  | ConsoleLog string
  | ConsoleError string
  | Uncaught string

fun is_send :: "effect \<Rightarrow> bool" where
  "is_send (Send ws m) = True"
| "is_send e = False"

text \<open>
  The environment: the variables read from \<open>process.env\<close>, js-yaml's \<open>dump\<close>, the
  connection URI as logged (credentials masked), and the MongoDB driver's synchronous
  failures: \<open>target_throws t\<close> is the message of the error that \<open>mongoClient.db(..)\<close> or
  \<open>.collection(..)\<close> throws for the names of \<open>t\<close>, \<open>watch_throws t\<close> that of
  \<open>watch\<close> on \<open>t\<close>; \<open>None\<close> when the call returns.
\<close>

record config =
  PORT :: string
  MONGODB_DATABASE :: string
  MONGODB_COLLECTION :: string
  yaml_dump :: "dump_options \<Rightarrow> jsval \<Rightarrow> string"
  masked_uri :: string
  target_throws :: "watch_target \<Rightarrow> string option"
  watch_throws :: "watch_target \<Rightarrow> string option"

text \<open>\<open>MONGODB_DATABASE && MONGODB_COLLECTION\<close>: both set, the target is fixed.\<close>

definition locked :: "config \<Rightarrow> bool" where
  "locked cfg \<longleftrightarrow> MONGODB_DATABASE cfg \<noteq> [] \<and> MONGODB_COLLECTION cfg \<noteq> []"

text \<open>
  An \<open>async\<close> function runs until its first pending \<open>await\<close> and is resumed when the
  awaited promise settles; other handlers run in between. A suspended call is kept with
  what it needs to go on: \<open>startWatching\<close> at \<open>await currentChangeStream.close()\<close>
  (its caller and arguments), \<open>connectMongoDB\<close> at \<open>await mongoClient.connect()\<close>.
\<close>

datatype caller = FromMessage conn | FromConnect

datatype continuation =
    AwaitClose caller "string option" "string option"
  | AwaitConnect

text \<open>
  The globals of server.js, \<open>readyState\<close> of every socket, the suspended calls, counters
  that name the change streams and clients created so far, and \<open>open_streams\<close>: the
  change streams that \<open>watch\<close> has returned and on which the program has not yet called
  \<open>close\<close>.
\<close>

record state =
  clients :: "conn list"
  readyState :: "conn \<Rightarrow> ready_state"
  mongoClient :: "nat option"
  currentChangeStream :: "stream option"
  currentWatchDescription :: string
  open_streams :: "stream list"
  streams_created :: nat
  clients_created :: nat
  suspended :: "continuation list"

datatype outcome = Returned | Threw string | Pending

subsection \<open>broadcast\<close>

definition broadcast :: "message \<Rightarrow> state \<Rightarrow> effect list" where
  "broadcast data st =
     concat (map (\<lambda>client. if readyState st client = OPEN then [Send client data] else [])
       (clients st))"

subsection \<open>startWatching\<close>

text \<open>The three-way choice of the watch target and its description.\<close>

definition watch_choice :: "string option \<Rightarrow> string option \<Rightarrow> watch_target \<times> string" where
  "watch_choice database collection =
     (if truthy_str database \<and> truthy_str collection \<and> collection \<noteq> Some ''*'' then
        (Collection (str_of database) (str_of collection),
         str_of database @ ''.'' @ str_of collection)
      else if truthy_str database then (Database (str_of database), str_of database @ ''.*'')
      else (Deployment, ''*.*''))"

text \<open>
  From "Determine what to watch" to the end of \<open>startWatching\<close>. With \<open>mongoClient\<close>
  still \<open>null\<close>, \<open>mongoClient.db\<close> and \<open>watchTarget.watch\<close> throw a TypeError.
\<close>

definition startWatching_open ::
    "config \<Rightarrow> string option \<Rightarrow> string option \<Rightarrow> state \<Rightarrow> state \<times> effect list \<times> outcome" where
  "startWatching_open cfg database collection st =
     (let watchTarget = fst (watch_choice database collection);
          watchDescription = snd (watch_choice database collection);
          resolved =
            (if watchTarget = Deployment then None
             else if mongoClient st = None then
               Some ''Cannot read properties of null (reading 'db')''
             else target_throws cfg watchTarget)
      in case resolved of
           Some e \<Rightarrow> (st, [], Threw e)
         | None \<Rightarrow>
            (let st1 = st\<lparr>currentWatchDescription := watchDescription\<rparr>;
                 logged = ConsoleLog (''Watching: '' @ watchDescription);
                 opened =
                   (if mongoClient st = None then
                      Some ''Cannot read properties of null (reading 'watch')''
                    else watch_throws cfg watchTarget)
             in case opened of
                  Some e \<Rightarrow> (st1, [logged], Threw e)
                | None \<Rightarrow>
                   (let s = streams_created st1;
                        st2 = st1\<lparr>currentChangeStream := Some s,
                                  open_streams := open_streams st1 @ [s],
                                  streams_created := Suc s\<rparr>
                    in (st2,
                        [logged, StreamOpen s watchTarget] @
                          broadcast (MsgStatus ''connected'' watchDescription) st2,
                        Returned))))"

text \<open>
  The call up to its first \<open>await\<close>: with a current stream, \<open>close()\<close> is called on it
  and the call is suspended; with none, nothing is awaited and the call runs to its end.
\<close>

definition startWatching_begin ::
    "config \<Rightarrow> caller \<Rightarrow> string option \<Rightarrow> string option \<Rightarrow> state \<Rightarrow>
     state \<times> effect list \<times> outcome" where
  "startWatching_begin cfg who database collection st =
     (case currentChangeStream st of
        Some s \<Rightarrow>
          (st\<lparr>open_streams := removeAll s (open_streams st),
              suspended := suspended st @ [AwaitClose who database collection]\<rparr>,
           [StreamClose s], Pending)
      | None \<Rightarrow> startWatching_open cfg database collection st)"

text \<open>
  The rest of the call once \<open>close()\<close> has settled (\<open>Some e\<close>: rejected with message
  \<open>e\<close>, which the \<open>await\<close> throws): \<open>currentChangeStream = null\<close>, then the new stream.
\<close>

definition startWatching_resume ::
    "config \<Rightarrow> string option \<Rightarrow> string option \<Rightarrow> string option \<Rightarrow> state \<Rightarrow>
     state \<times> effect list \<times> outcome" where
  "startWatching_resume cfg settled database collection st =
     (case settled of
        Some e \<Rightarrow> (st, [], Threw e)
      | None \<Rightarrow> startWatching_open cfg database collection (st\<lparr>currentChangeStream := None\<rparr>))"

subsection \<open>The change-stream listeners\<close>

text \<open>The payload shown to viewers: \<open>if (formatted.document) .. else if (formatted.updates) ..\<close>.\<close>

definition payload_of :: "formatted \<Rightarrow> jsval" where
  "payload_of f =
     (if truthy (document f) then document f
      else if truthy (updates f) then updates f
      else Obj [(''documentKey'', f_documentKey f)])"

definition change_message :: "config \<Rightarrow> formatted \<Rightarrow> message option" where
  "change_message cfg f =
     (case toYaml (yaml_dump cfg) (payload_of f) of
        None \<Rightarrow> None
      | Some yamlContent \<Rightarrow>
          (case cleanForYaml (payload_of f) of
             None \<Rightarrow> None
           | Some json \<Rightarrow>
               Some (MsgChange (operation f) (namespace f) (timestamp f) yamlContent json f)))"

text \<open>The \<open>'change'\<close> listener. It assigns to no global.\<close>

definition on_change :: "config \<Rightarrow> string \<Rightarrow> change \<Rightarrow> state \<Rightarrow> effect list" where
  "on_change cfg now c st =
     (case change_message cfg (formatChangeEvent now c) of
        None \<Rightarrow> [Uncaught ''TypeError: obj.toString is not a function'']
      | Some m \<Rightarrow> broadcast m st)"

text \<open>The \<open>'error'\<close> listener of the change stream.\<close>

definition on_stream_error :: "string \<Rightarrow> state \<Rightarrow> effect list" where
  "on_stream_error e st =
     ConsoleError (''Change stream error: '' @ e) # broadcast (MsgError e) st"

subsection \<open>connectMongoDB\<close>

text \<open>
  Up to \<open>await mongoClient.connect()\<close>. The client is built from a URI the driver
  accepts.
\<close>

definition connectMongoDB :: "config \<Rightarrow> state \<Rightarrow> state \<times> effect list" where
  "connectMongoDB cfg st =
     (st\<lparr>mongoClient := Some (clients_created st),
         clients_created := Suc (clients_created st),
         suspended := suspended st @ [AwaitConnect]\<rparr>,
      [ConsoleLog ''Mongo TV Starting...'',
       ConsoleLog (''Connecting to MongoDB: '' @ masked_uri cfg),
       ClientConnect (clients_created st)])"

text \<open>
  What follows \<open>await startWatching(..)\<close> inside the \<open>try\<close>: on return the shutdown
  handler is registered; a throw reaches the \<open>catch\<close>, which broadcasts the failure and
  schedules the retry.
\<close>

definition connect_catch :: "state \<times> effect list \<times> outcome \<Rightarrow> state \<times> effect list" where
  "connect_catch r =
     (case r of (st, effs, out) \<Rightarrow>
        (case out of
           Returned \<Rightarrow> (st, effs @ [OnSigint])
         | Threw e \<Rightarrow>
             (st, effs @ [ConsoleError (''MongoDB connection error: '' @ e)] @
                  broadcast (MsgError (''Connection failed: '' @ e)) st @ [SetTimeout 5000])
         | Pending \<Rightarrow> (st, effs)))"

subsection \<open>The WebSocket handlers\<close>

text \<open>
  A message as \<open>JSON.parse\<close> leaves it: \<open>Unparseable e\<close> when parsing (or reading
  \<open>data.type\<close> of \<open>null\<close>) throws with message \<open>e\<close>, else the fields \<open>type\<close>, \<open>database\<close>
  and \<open>collection\<close>, each a string or missing.
\<close>

datatype inbound =
    Unparseable string
  | Data "string option" "string option" "string option"

definition message_catch :: "state \<times> effect list \<times> outcome \<Rightarrow> state \<times> effect list" where
  "message_catch r =
     (case r of (st, effs, out) \<Rightarrow>
        (case out of
           Threw e \<Rightarrow> (st, effs @ [ConsoleError (''WebSocket message error: '' @ e)])
         | Returned \<Rightarrow> (st, effs)
         | Pending \<Rightarrow> (st, effs)))"

text \<open>
  The \<open>'message'\<close> listener of the socket \<open>ws\<close>, up to the first \<open>await\<close> that
  suspends it.
\<close>

definition on_message :: "config \<Rightarrow> conn \<Rightarrow> inbound \<Rightarrow> state \<Rightarrow> state \<times> effect list" where
  "on_message cfg ws message st =
     (case message of
        Unparseable e \<Rightarrow> (st, [ConsoleError (''WebSocket message error: '' @ e)])
      | Data type database collection \<Rightarrow>
          if type = Some ''selectCollection'' then
            if locked cfg then
              (st, [Send ws (MsgError ''Collection is fixed by environment configuration'')])
            else message_catch (startWatching_begin cfg (FromMessage ws) database collection st)
          else (st, []))"

text \<open>\<open>wss.on('connection')\<close>: \<open>clients.add\<close>, the welcome and the current status.\<close>

definition on_connection :: "conn \<Rightarrow> state \<Rightarrow> state \<times> effect list" where
  "on_connection ws st =
     (st\<lparr>clients := (if ws \<in> set (clients st) then clients st else clients st @ [ws])\<rparr>,
      Send ws (MsgWelcome ''Welcome to Mongo TV'') #
        (if currentWatchDescription st \<noteq> [] then
           [Send ws (MsgStatus ''connected'' (currentWatchDescription st))]
         else []))"

definition on_close :: "conn \<Rightarrow> state \<Rightarrow> state" where
  "on_close ws st = st\<lparr>clients := removeAll ws (clients st)\<rparr>"

definition on_error :: "conn \<Rightarrow> string \<Rightarrow> state \<Rightarrow> state \<times> effect list" where
  "on_error ws e st =
     (st\<lparr>clients := removeAll ws (clients st)\<rparr>, [ConsoleError (''WebSocket error: '' @ e)])"

subsection \<open>The event loop\<close>

text \<open>A suspended call resumed with the outcome of the promise it awaits.\<close>

definition resume :: "config \<Rightarrow> continuation \<Rightarrow> string option \<Rightarrow> state \<Rightarrow> state \<times> effect list" where
  "resume cfg k settled st =
     (case k of
        AwaitClose who database collection \<Rightarrow>
          (case who of
             FromMessage ws \<Rightarrow>
               message_catch (startWatching_resume cfg settled database collection st)
           | FromConnect \<Rightarrow>
               connect_catch (startWatching_resume cfg settled database collection st))
      | AwaitConnect \<Rightarrow>
          (case settled of
             Some e \<Rightarrow> connect_catch (st, [], Threw e)
           | None \<Rightarrow>
               (case startWatching_begin cfg FromConnect
                       (Some (MONGODB_DATABASE cfg)) (Some (MONGODB_COLLECTION cfg)) st of
                  (st', effs, out) \<Rightarrow>
                    connect_catch (st', ConsoleLog ''Connected to MongoDB'' # effs, out))))"

text \<open>
  One turn of the event loop. \<open>WsReadyState\<close> is a socket changing state without a
  listener running; \<open>Listening\<close> and \<open>TimerFired\<close> both call \<open>connectMongoDB\<close>;
  \<open>Settled k r\<close> settles the promise the \<open>k\<close>-th suspended call awaits. A change stream
  emits only while it is open.
\<close>

datatype event =
    WsConnection conn
  | WsClose conn
  | WsError conn string
  | WsMessage conn inbound
  | WsReadyState conn ready_state
  | Listening
  | TimerFired
  | Settled nat "string option"
  | StreamChange stream string change
  | StreamError stream string

fun step :: "config \<Rightarrow> event \<Rightarrow> state \<Rightarrow> state \<times> effect list" where
  "step cfg (WsConnection ws) st =
     on_connection ws (st\<lparr>readyState := (readyState st)(ws := OPEN)\<rparr>)"
| "step cfg (WsClose ws) st =
     (on_close ws (st\<lparr>readyState := (readyState st)(ws := CLOSED)\<rparr>), [])"
| "step cfg (WsError ws e) st = on_error ws e st"
| "step cfg (WsMessage ws message) st = on_message cfg ws message st"
| "step cfg (WsReadyState ws r) st = (st\<lparr>readyState := (readyState st)(ws := r)\<rparr>, [])"
| "step cfg Listening st =
     (case connectMongoDB cfg st of
        (st', effs) \<Rightarrow>
          (st', ConsoleLog (''Server running on http://localhost:'' @ PORT cfg) # effs))"
| "step cfg TimerFired st = connectMongoDB cfg st"
| "step cfg (Settled k r) st =
     (if k < length (suspended st) then
        resume cfg (suspended st ! k) r
          (st\<lparr>suspended := take k (suspended st) @ drop (Suc k) (suspended st)\<rparr>)
      else (st, []))"
| "step cfg (StreamChange s now c) st =
     (st, if s \<in> set (open_streams st) then on_change cfg now c st else [])"
| "step cfg (StreamError s e) st =
     (st, if s \<in> set (open_streams st) then on_stream_error e st else [])"

fun run :: "config \<Rightarrow> event list \<Rightarrow> state \<Rightarrow> state \<times> effect list" where
  "run cfg [] st = (st, [])"
| "run cfg (e # es) st =
     (case step cfg e st of
        (st1, out1) \<Rightarrow> (case run cfg es st1 of (st2, out2) \<Rightarrow> (st2, out1 @ out2)))"

text \<open>The state when server.js has been loaded, before \<open>listen\<close> calls back.\<close>

definition initial :: state where
  "initial =
     \<lparr> clients = [], readyState = (\<lambda>ws. CLOSED), mongoClient = None,
       currentChangeStream = None, currentWatchDescription = [], open_streams = [],
       streams_created = 0, clients_created = 0, suspended = [] \<rparr>"

subsection \<open>Concrete configurations, states and requests\<close>

text \<open>No fixed target: viewers may retarget. The driver accepts every name.\<close>

definition unlocked_config :: config where
  "unlocked_config =
     \<lparr> PORT = ''3000'', MONGODB_DATABASE = [], MONGODB_COLLECTION = [],
       yaml_dump = (\<lambda>options v. ''yaml''),
       masked_uri = ''mongodb://localhost:27017/?replicaSet=rs0'',
       target_throws = (\<lambda>t. None), watch_throws = (\<lambda>t. None) \<rparr>"

text \<open>The target fixed to \<open>shop.orders\<close> by the environment.\<close>

definition locked_config :: config where
  "locked_config =
     unlocked_config\<lparr>MONGODB_DATABASE := ''shop'', MONGODB_COLLECTION := ''orders''\<rparr>"

text \<open>A driver that rejects the database name \<open>a.b\<close>, as \<open>mongoClient.db\<close> does.\<close>

definition strict_config :: config where
  "strict_config =
     unlocked_config\<lparr>target_throws :=
       (\<lambda>t. if t = Database ''a.b'' then Some ''Database names cannot contain the character .''
            else None)\<rparr>"

definition select :: "string \<Rightarrow> string \<Rightarrow> inbound" where
  "select d c = Data (Some ''selectCollection'') (Some d) (Some c)"

text \<open>The server starts and connects, and two viewers join.\<close>

definition startup :: "event list" where
  "startup = [Listening, Settled 0 None, WsConnection 1, WsConnection 2]"

text \<open>
  The state \<open>startup\<close> leads to when the target is fixed to \<open>shop.orders\<close>: it is
  watched through change stream 0.
\<close>

definition watching_fixed :: state where
  "watching_fixed =
     \<lparr> clients = [1, 2], readyState = (\<lambda>ws. CLOSED)(1 := OPEN, 2 := OPEN),
       mongoClient = Some 0, currentChangeStream = Some 0,
       currentWatchDescription = ''shop.orders'', open_streams = [0],
       streams_created = 1, clients_created = 1, suspended = [] \<rparr>"

text \<open>
  The state reached without a fixed target once viewer 1 has asked for \<open>shop.orders\<close>
  after \<open>startup\<close>: the first stream, on the whole deployment, is closed, and
  \<open>shop.orders\<close> is watched through change stream 1.
\<close>

definition two_viewers :: state where
  "two_viewers =
     \<lparr> clients = [1, 2], readyState = (\<lambda>ws. CLOSED)(1 := OPEN, 2 := OPEN),
       mongoClient = Some 0, currentChangeStream = Some 1,
       currentWatchDescription = ''shop.orders'', open_streams = [1],
       streams_created = 2, clients_created = 1, suspended = [] \<rparr>"

text \<open>The same, the socket of viewer 1 closing while it is still in \<open>clients\<close>.\<close>

definition one_closing :: state where
  "one_closing = two_viewers\<lparr>readyState := (\<lambda>ws. CLOSED)(1 := CLOSING, 2 := OPEN)\<rparr>"

text \<open>
  An insert into \<open>shop.orders\<close> carrying the full document \<open>{b: "x", a: 1, _id: ObjectId}\<close>,
  and an update of it carrying no full document.
\<close>

definition insert_event :: change where
  "insert_event =
     \<lparr> operationType = ''insert'',
       ns = Some \<lparr> db = Some ''shop'', coll = Some ''orders'' \<rparr>,
       documentKey = Obj [(''_id'', ObjectId ''65a1'')],
       fullDocument = Obj [(''b'', Str ''x''), (''a'', Num 1), (''_id'', ObjectId ''65a1'')],
       updateDescription = Undefined \<rparr>"


text \<open>A notification that carries nothing but its operation type.\<close>

definition bare_event :: "string \<Rightarrow> change" where
  "bare_event tag =
     \<lparr> operationType = tag, ns = None, documentKey = Undefined, fullDocument = Undefined,
       updateDescription = Undefined \<rparr>"

text \<open>The effects that deliver a change event to a viewer, and the calls on change streams.\<close>

fun is_change_send :: "effect \<Rightarrow> bool" where
  "is_change_send (Send ws (MsgChange op n t y j f)) = True"
| "is_change_send e = False"

fun is_stream_call :: "effect \<Rightarrow> bool" where
  "is_stream_call (StreamOpen s t) = True"
| "is_stream_call (StreamClose s) = True"
| "is_stream_call e = False"

text \<open>At most one change stream is open, and it is the current one.\<close>

definition single_stream :: "state \<Rightarrow> bool" where
  "single_stream st =
     (case open_streams st of
        [] \<Rightarrow> True
      | [s] \<Rightarrow> currentChangeStream st = Some s
      | s # s' # ss \<Rightarrow> False)"

text \<open>
  After \<open>startup\<close> both viewers ask for a collection; the second request arrives
  while the first still awaits \<open>close()\<close>, then the two \<open>close()\<close> promises are
  fulfilled.
\<close>

definition racing_requests :: "event list" where
  "racing_requests =
     startup @
     [WsMessage 1 (select ''shop'' ''orders''), WsMessage 2 (select ''shop'' ''users''),
      Settled 0 None, Settled 0 None]"

text \<open>
  \<open>two_viewers\<close> once viewer 1 has asked for \<open>shop.users\<close>: \<open>close()\<close> has been called
  on stream 1 and the call of \<open>startWatching\<close> awaits it.
\<close>

definition awaiting_close :: state where
  "awaiting_close =
     two_viewers\<lparr>open_streams := [],
       suspended := [AwaitClose (FromMessage 1) (Some ''shop'') (Some ''users'')]\<rparr>"

section \<open>Properties\<close>

subsection \<open>Auxiliary facts\<close>

lemma broadcast_sends:
  "Send c m' \<in> set (broadcast m st) \<longleftrightarrow>
     m' = m \<and> c \<in> set (clients st) \<and> readyState st c = OPEN"
  by (auto simp: broadcast_def)

lemma broadcast_only_sends: "e \<in> set (broadcast m st) \<Longrightarrow> is_send e"
  by (auto simp: broadcast_def split: if_splits)

lemma filter_send_broadcast: "filter is_send (broadcast m st) = broadcast m st"
  by (simp add: broadcast_only_sends)

text \<open>The concrete states are states the server reaches from its initial one.\<close>

lemma watching_fixed_reachable: "fst (run locked_config startup initial) = watching_fixed"
  by (simp add: Let_def startup_def locked_config_def unlocked_config_def watching_fixed_def
        initial_def connectMongoDB_def resume_def startWatching_begin_def
        startWatching_open_def watch_choice_def connect_catch_def broadcast_def
        on_connection_def)

lemma two_viewers_reachable:
  "fst (run unlocked_config
         (startup @ [WsMessage 1 (select ''shop'' ''orders''), Settled 0 None]) initial) =
     two_viewers"
  "fst (run strict_config
         (startup @ [WsMessage 1 (select ''shop'' ''orders''), Settled 0 None]) initial) =
     two_viewers"
  by (simp_all add: Let_def startup_def select_def strict_config_def unlocked_config_def
        two_viewers_def initial_def connectMongoDB_def resume_def startWatching_begin_def
        startWatching_open_def watch_choice_def connect_catch_def broadcast_def
        on_connection_def on_message_def locked_def message_catch_def
        startWatching_resume_def)

lemma one_closing_reachable: "fst (step cfg (WsReadyState 1 CLOSING) two_viewers) = one_closing"
  by (simp add: one_closing_def two_viewers_def fun_eq_iff)

lemma startWatching_open_frame:
  "startWatching_open cfg d c st = (st', effs, out) \<Longrightarrow>
     suspended st' = suspended st \<and> clients st' = clients st \<and>
     readyState st' = readyState st \<and> mongoClient st' = mongoClient st \<and>
     clients_created st' = clients_created st"
  by (auto simp: startWatching_open_def Let_def split: option.splits if_splits)

subsection \<open>Stream errors\<close>

text \<open>
  C1 (as amended). The \<open>'error'\<close> listener of an open change stream logs the error and
  broadcasts an error event to every registered viewer whose socket is open, and does
  nothing else: the state is unchanged, so the stream stays the current one, no
  \<open>close()\<close> is called and no reconnection is started or scheduled. Three stream errors
  in a row give three such broadcasts.
\<close>

theorem stream_error_only_broadcasts:
  "s \<in> set (open_streams st) \<Longrightarrow>
     step cfg (StreamError s e) st =
       (st, ConsoleError (''Change stream error: '' @ e) # broadcast (MsgError e) st) \<and>
     (\<forall>c. Send c (MsgError e) \<in> set (snd (step cfg (StreamError s e) st)) \<longleftrightarrow>
            c \<in> set (clients st) \<and> readyState st c = OPEN) \<and>
     run cfg [StreamError s e1, StreamError s e2, StreamError s e3] st =
       (st, on_stream_error e1 st @ on_stream_error e2 st @ on_stream_error e3 st)"
  by (simp add: on_stream_error_def broadcast_sends)

theorem stream_error_only_broadcasts_witness:
  "1 \<in> set (open_streams two_viewers) \<and>
   step unlocked_config (StreamError 1 ''cursor killed'') two_viewers =
     (two_viewers,
      [ConsoleError ''Change stream error: cursor killed'',
       Send 1 (MsgError ''cursor killed''), Send 2 (MsgError ''cursor killed'')])"
proof -
  have o: "1 \<in> set (open_streams two_viewers)"
    by (simp add: two_viewers_def)
  have b: "broadcast (MsgError ''cursor killed'') two_viewers =
      [Send 1 (MsgError ''cursor killed''), Send 2 (MsgError ''cursor killed'')]"
    by (simp add: two_viewers_def broadcast_def)
  from stream_error_only_broadcasts [OF o, of unlocked_config "''cursor killed''"] o b
  show ?thesis
    by simp
qed

text \<open>
  C1 as stated fails: after a stream error on the current stream 1, no \<open>close()\<close> has
  been called on it, it is still the current stream, and neither a connection attempt,
  a retry timer nor a new \<open>watch\<close> is among the effects.
\<close>

theorem stream_error_no_close_no_reconnect:
  "currentChangeStream two_viewers = Some 1 \<and>
   StreamClose 1 \<notin> set (snd (step unlocked_config (StreamError 1 ''cursor killed'') two_viewers)) \<and>
   SetTimeout 5000 \<notin> set (snd (step unlocked_config (StreamError 1 ''cursor killed'') two_viewers)) \<and>
   ClientConnect 1 \<notin> set (snd (step unlocked_config (StreamError 1 ''cursor killed'') two_viewers)) \<and>
   StreamOpen 2 (Collection ''shop'' ''orders'') \<notin>
     set (snd (step unlocked_config (StreamError 1 ''cursor killed'') two_viewers)) \<and>
   currentChangeStream (fst (step unlocked_config (StreamError 1 ''cursor killed'') two_viewers)) =
     Some 1 \<and>
   open_streams (fst (step unlocked_config (StreamError 1 ''cursor killed'') two_viewers)) = [1] \<and>
   suspended (fst (step unlocked_config (StreamError 1 ''cursor killed'') two_viewers)) = []"
  by (simp add: two_viewers_def on_stream_error_def broadcast_def)

subsection \<open>The fixed target\<close>

text \<open>
  C3. With the target fixed, a \<open>selectCollection\<close> request for a target other than the
  fixed one is answered with the lock error, sent to the requesting socket alone; no
  change stream is closed or opened and the state, hence the current target, is the
  same afterwards. So it remains after any number of such requests.
\<close>

theorem locked_request_rejected:
  "locked cfg \<Longrightarrow>
   (d, c) \<noteq> (Some (MONGODB_DATABASE cfg), Some (MONGODB_COLLECTION cfg)) \<Longrightarrow>
   \<forall>r \<in> set reqs. snd r \<noteq> (Some (MONGODB_DATABASE cfg), Some (MONGODB_COLLECTION cfg)) \<Longrightarrow>
     step cfg (WsMessage ws (Data (Some ''selectCollection'') d c)) st =
       (st, [Send ws (MsgError ''Collection is fixed by environment configuration'')]) \<and>
     fst (run cfg
           (map (\<lambda>r. WsMessage (fst r) (Data (Some ''selectCollection'') (fst (snd r)) (snd (snd r))))
              reqs) st) = st"
proof (induction reqs)
  case Nil
  then show ?case by (simp add: on_message_def)
next
  case (Cons r reqs)
  then show ?case by (simp add: on_message_def split_beta)
qed

theorem locked_request_rejected_witness:
  "locked locked_config \<and>
   step locked_config (WsMessage 2 (select ''shop'' ''users'')) watching_fixed =
     (watching_fixed, [Send 2 (MsgError ''Collection is fixed by environment configuration'')]) \<and>
   currentWatchDescription
     (fst (run locked_config
            [WsMessage 2 (select ''shop'' ''users''), WsMessage 1 (select ''logs'' ''*'')]
            watching_fixed)) = ''shop.orders''"
proof -
  let ?reqs = "[(2::nat, Some ''shop'', Some ''users''), (1, Some ''logs'', Some ''*'')]"
  have l: "locked locked_config"
    by (simp add: locked_config_def unlocked_config_def locked_def)
  have d: "(Some ''shop'', Some ''users'') \<noteq>
      (Some (MONGODB_DATABASE locked_config), Some (MONGODB_COLLECTION locked_config))"
    by (simp add: locked_config_def unlocked_config_def)
  have r: "\<forall>r \<in> set ?reqs.
      snd r \<noteq> (Some (MONGODB_DATABASE locked_config), Some (MONGODB_COLLECTION locked_config))"
    by (simp add: locked_config_def unlocked_config_def)
  have e: "map (\<lambda>r. WsMessage (fst r) (Data (Some ''selectCollection'') (fst (snd r)) (snd (snd r))))
        ?reqs =
      [WsMessage 2 (select ''shop'' ''users''), WsMessage 1 (select ''logs'' ''*'')]"
    by (simp add: select_def)
  have w: "currentWatchDescription watching_fixed = ''shop.orders''"
    by (simp add: watching_fixed_def)
  note t = locked_request_rejected [OF l d r, of 2 watching_fixed]
  from t have "step locked_config (WsMessage 2 (select ''shop'' ''users'')) watching_fixed =
      (watching_fixed, [Send 2 (MsgError ''Collection is fixed by environment configuration'')])"
    unfolding select_def by (rule conjunct1)
  moreover from t have "fst (run locked_config
      [WsMessage 2 (select ''shop'' ''users''), WsMessage 1 (select ''logs'' ''*'')]
      watching_fixed) = watching_fixed"
    unfolding e by (rule conjunct2)
  ultimately show ?thesis
    using l w by (simp only: simp_thms)
qed

text \<open>
  C10. With the target fixed, every \<open>selectCollection\<close> request gets the lock error and
  changes nothing, whatever target it names: the fixed database and collection
  themselves are rejected like any other, the request's \<open>database\<close> and \<open>collection\<close>
  not being looked at.
\<close>

theorem locked_rejects_fixed_target_too:
  "locked cfg \<Longrightarrow>
     step cfg (WsMessage ws (Data (Some ''selectCollection'')
         (Some (MONGODB_DATABASE cfg)) (Some (MONGODB_COLLECTION cfg)))) st =
       (st, [Send ws (MsgError ''Collection is fixed by environment configuration'')]) \<and>
     (\<forall>d c. step cfg (WsMessage ws (Data (Some ''selectCollection'') d c)) st =
       (st, [Send ws (MsgError ''Collection is fixed by environment configuration'')]))"
  by (simp add: on_message_def)

theorem locked_rejects_fixed_target_too_witness:
  "locked locked_config \<and>
   MONGODB_DATABASE locked_config = ''shop'' \<and> MONGODB_COLLECTION locked_config = ''orders'' \<and>
   step locked_config (WsMessage 1 (select ''shop'' ''orders'')) watching_fixed =
     (watching_fixed, [Send 1 (MsgError ''Collection is fixed by environment configuration'')])"
proof -
  have l: "locked locked_config"
    by (simp add: locked_config_def unlocked_config_def locked_def)
  have f: "MONGODB_DATABASE locked_config = ''shop'' \<and>
      MONGODB_COLLECTION locked_config = ''orders''"
    by (simp add: locked_config_def unlocked_config_def)
  from locked_rejects_fixed_target_too [OF l, of 1 watching_fixed] l f show ?thesis
    by (simp add: select_def)
qed

subsection \<open>broadcast\<close>

text \<open>
  C8 (as amended). \<open>broadcast\<close> calls \<open>send\<close> with the event on exactly the registered
  connections whose socket is \<open>OPEN\<close>, in registration order, and on no other; whether a
  connection is served depends on its own registration and state only, so a closed or
  closing socket takes nothing from the others.
\<close>

theorem broadcast_reaches_open_clients:
  "broadcast m st =
     map (\<lambda>c. Send c m) (filter (\<lambda>c. readyState st c = OPEN) (clients st)) \<and>
   (\<forall>c m'. Send c m' \<in> set (broadcast m st) \<longleftrightarrow>
      m' = m \<and> c \<in> set (clients st) \<and> readyState st c = OPEN)"
proof -
  have "concat (map (\<lambda>client. if P client then [Send client m] else []) xs) =
        map (\<lambda>c. Send c m) (filter P xs)" for P xs
    by (induction xs) auto
  then have "broadcast m st =
      map (\<lambda>c. Send c m) (filter (\<lambda>c. readyState st c = OPEN) (clients st))"
    by (simp add: broadcast_def)
  moreover have "\<forall>c m'. Send c m' \<in> set (broadcast m st) \<longleftrightarrow>
      m' = m \<and> c \<in> set (clients st) \<and> readyState st c = OPEN"
    by (simp add: broadcast_sends)
  ultimately show ?thesis
    by (rule conjI)
qed

text \<open>
  C8 as stated fails: viewer 1 is registered before and after the call, its socket is
  closing, and the event is not sent to it; viewer 2 gets it.
\<close>

theorem broadcast_skips_closing_client:
  "1 \<in> set (clients one_closing) \<and>
   Send 1 (MsgError ''x'') \<notin> set (broadcast (MsgError ''x'') one_closing) \<and>
   broadcast (MsgError ''x'') one_closing = [Send 2 (MsgError ''x'')]"
  by (simp add: one_closing_def two_viewers_def broadcast_def)

theorem broadcast_reaches_open_clients_witness:
  "broadcast (MsgStatus ''connected'' ''shop.orders'') two_viewers =
     [Send 1 (MsgStatus ''connected'' ''shop.orders''),
      Send 2 (MsgStatus ''connected'' ''shop.orders'')]"
  using broadcast_reaches_open_clients [of "MsgStatus ''connected'' ''shop.orders''" two_viewers]
  by (simp add: two_viewers_def)


subsection \<open>The normalizer\<close>







text \<open>
  C6 (as amended). Each of the six known operation types is mapped to its upper-case
  name; any other type, unless it names a member every object inherits, is passed
  through upper-cased, and that upper-cased text is all the formatted event keeps of
  it: the operation type reaches no other field. The namespace is
  \<open>database.collection\<close>, with the literal \<open>unknown\<close> for a component that is absent or
  empty.
\<close>

theorem operation_and_namespace:
  "(operationType c = ''insert'' \<longrightarrow> operation (formatChangeEvent now c) = OpName ''INSERT'') \<and>
   (operationType c = ''update'' \<longrightarrow> operation (formatChangeEvent now c) = OpName ''UPDATE'') \<and>
   (operationType c = ''replace'' \<longrightarrow> operation (formatChangeEvent now c) = OpName ''REPLACE'') \<and>
   (operationType c = ''delete'' \<longrightarrow> operation (formatChangeEvent now c) = OpName ''DELETE'') \<and>
   (operationType c = ''drop'' \<longrightarrow> operation (formatChangeEvent now c) = OpName ''DROP'') \<and>
   (operationType c = ''invalidate'' \<longrightarrow>
      operation (formatChangeEvent now c) = OpName ''INVALIDATE'') \<and>
   (operationType c \<notin> set (map fst operationMap) \<and>
    operationType c \<notin> set Object_prototype_members \<longrightarrow>
      operation (formatChangeEvent now c) = OpName (toUpperCase (operationType c))) \<and>
   formatChangeEvent now (c\<lparr>operationType := t\<rparr>) =
     (formatChangeEvent now c)\<lparr>operation := operation_of t\<rparr> \<and>
   (ns c = None \<longrightarrow> namespace (formatChangeEvent now c) = ''unknown.unknown'') \<and>
   (\<forall>n. ns c = Some n \<longrightarrow>
      namespace (formatChangeEvent now c) =
        (if truthy_str (db n) then str_of (db n) else ''unknown'') @ ''.'' @
        (if truthy_str (coll n) then str_of (coll n) else ''unknown''))"
proof -
  have known: "operation (formatChangeEvent now c) = OpName name"
    if "map_of operationMap (operationType c) = Some name" for name
    using that by (simp add: formatChangeEvent_def operation_of_def)
  have k1: "operationType c = ''insert'' \<longrightarrow>
      operation (formatChangeEvent now c) = OpName ''INSERT''"
    by (rule impI, rule known) (simp add: operationMap_def)
  have k2: "operationType c = ''update'' \<longrightarrow>
      operation (formatChangeEvent now c) = OpName ''UPDATE''"
    by (rule impI, rule known) (simp add: operationMap_def)
  have k3: "operationType c = ''replace'' \<longrightarrow>
      operation (formatChangeEvent now c) = OpName ''REPLACE''"
    by (rule impI, rule known) (simp add: operationMap_def)
  have k4: "operationType c = ''delete'' \<longrightarrow>
      operation (formatChangeEvent now c) = OpName ''DELETE''"
    by (rule impI, rule known) (simp add: operationMap_def)
  have k5: "operationType c = ''drop'' \<longrightarrow>
      operation (formatChangeEvent now c) = OpName ''DROP''"
    by (rule impI, rule known) (simp add: operationMap_def)
  have k6: "operationType c = ''invalidate'' \<longrightarrow>
      operation (formatChangeEvent now c) = OpName ''INVALIDATE''"
    by (rule impI, rule known) (simp add: operationMap_def)
  have u: "operationType c \<notin> set (map fst operationMap) \<and>
      operationType c \<notin> set Object_prototype_members \<longrightarrow>
      operation (formatChangeEvent now c) = OpName (toUpperCase (operationType c))"
  proof
    assume a: "operationType c \<notin> set (map fst operationMap) \<and>
      operationType c \<notin> set Object_prototype_members"
    then have "map_of operationMap (operationType c) = None"
      by (simp only: map_of_eq_None_iff set_map not_False_eq_True)
    with a show "operation (formatChangeEvent now c) = OpName (toUpperCase (operationType c))"
      by (simp add: formatChangeEvent_def operation_of_def)
  qed
  have t: "formatChangeEvent now (c\<lparr>operationType := t\<rparr>) =
      (formatChangeEvent now c)\<lparr>operation := operation_of t\<rparr>"
    by (simp add: formatChangeEvent_def)
  have n0: "ns c = None \<longrightarrow> namespace (formatChangeEvent now c) = ''unknown.unknown''"
    by (simp add: formatChangeEvent_def)
  have n1: "\<forall>n. ns c = Some n \<longrightarrow>
      namespace (formatChangeEvent now c) =
        (if truthy_str (db n) then str_of (db n) else ''unknown'') @ ''.'' @
        (if truthy_str (coll n) then str_of (coll n) else ''unknown'')"
    by (simp add: formatChangeEvent_def or_unknown_def)
  from k1 k2 k3 k4 k5 k6 u t n0 n1 show ?thesis
    by (intro conjI)
qed

theorem operation_and_namespace_witness:
  "operation (formatChangeEvent ''t'' insert_event) = OpName ''INSERT'' \<and>
   operation (formatChangeEvent ''t'' (bare_event ''rename'')) = OpName ''RENAME'' \<and>
   namespace (formatChangeEvent ''t'' insert_event) = ''shop.orders'' \<and>
   namespace (formatChangeEvent ''t'' (bare_event ''rename'')) = ''unknown.unknown''"
proof -
  have i: "operationType insert_event = ''insert'' \<and>
      ns insert_event = Some \<lparr> db = Some ''shop'', coll = Some ''orders'' \<rparr>"
    by (simp add: insert_event_def)
  have r: "operationType (bare_event ''rename'') = ''rename'' \<and>
      ns (bare_event ''rename'') = None \<and>
      ''rename'' \<notin> set (map fst operationMap) \<and> ''rename'' \<notin> set Object_prototype_members \<and>
      toUpperCase ''rename'' = ''RENAME''"
    by (simp add: bare_event_def operationMap_def Object_prototype_members_def
          toUpperCase_def to_upper_char_def)
  from operation_and_namespace [of insert_event "''t''"] i
    operation_and_namespace [of "bare_event ''rename''" "''t''"] r
  show ?thesis
    by simp
qed

text \<open>
  C6 as stated fails: the formatted event of a \<open>dropDatabase\<close> notification holds the
  text \<open>DROPDATABASE\<close> and nowhere the original type, and it is the very event that a
  notification of type \<open>DropDatabase\<close> gives. (And for a type such as \<open>constructor\<close>
  the lookup in \<open>operationMap\<close> finds the inherited member, so that nothing is
  upper-cased.)
\<close>

theorem unknown_tag_spelling_lost:
  "formatChangeEvent ''t'' (bare_event ''dropDatabase'') =
     \<lparr> operation = OpName ''DROPDATABASE'', timestamp = ''t'', namespace = ''unknown.unknown'',
       f_documentKey = Undefined, document = Undefined, updates = Undefined \<rparr> \<and>
   formatChangeEvent ''t'' (bare_event ''DropDatabase'') =
     formatChangeEvent ''t'' (bare_event ''dropDatabase'') \<and>
   ''DropDatabase'' \<noteq> ''dropDatabase'' \<and>
   operation (formatChangeEvent ''t'' (bare_event ''constructor'')) = OpInherited ''constructor''"
  by (simp add: formatChangeEvent_def bare_event_def operation_of_def operationMap_def
        Object_prototype_members_def toUpperCase_def to_upper_char_def)


subsection \<open>Retargeting\<close>

lemma broadcast_updates:
  "broadcast m (st\<lparr>currentChangeStream := a\<rparr>) = broadcast m st"
  "broadcast m (st\<lparr>currentWatchDescription := b\<rparr>) = broadcast m st"
  "broadcast m (st\<lparr>open_streams := c\<rparr>) = broadcast m st"
  "broadcast m (st\<lparr>streams_created := d\<rparr>) = broadcast m st"
  "broadcast m (st\<lparr>suspended := e\<rparr>) = broadcast m st"
  "broadcast m (st\<lparr>mongoClient := f\<rparr>) = broadcast m st"
  "broadcast m (st\<lparr>clients_created := g\<rparr>) = broadcast m st"
  by (simp_all add: broadcast_def)

lemma startWatching_open_sends:
  assumes "startWatching_open cfg d c st = (st', effs, out)"
  shows "out \<noteq> Pending"
    and "filter is_send effs =
      (if out = Returned then broadcast (MsgStatus ''connected'' (snd (watch_choice d c))) st
       else [])"
  using assms
  by (auto simp: startWatching_open_def Let_def filter_send_broadcast broadcast_updates
        split: option.splits if_splits)

lemma startWatching_begin_sends:
  assumes "startWatching_begin cfg who d c st = (st', effs, out)"
  shows "filter is_send effs =
      (if out = Returned then broadcast (MsgStatus ''connected'' (snd (watch_choice d c))) st
       else [])"
proof (cases "currentChangeStream st")
  case None
  with assms startWatching_open_sends(2) show ?thesis
    by (simp add: startWatching_begin_def)
next
  case (Some s)
  with assms show ?thesis
    by (auto simp: startWatching_begin_def)
qed

lemma startWatching_resume_sends:
  assumes "startWatching_resume cfg r d c st = (st', effs, out)"
  shows "out \<noteq> Pending"
    and "filter is_send effs =
      (if out = Returned then broadcast (MsgStatus ''connected'' (snd (watch_choice d c))) st
       else [])"
proof -
  show "out \<noteq> Pending"
    using assms startWatching_open_sends(1)
    by (auto simp: startWatching_resume_def split: option.splits)
  show "filter is_send effs =
      (if out = Returned then broadcast (MsgStatus ''connected'' (snd (watch_choice d c))) st
       else [])"
  proof (cases r)
    case (Some e)
    with assms show ?thesis
      by (auto simp: startWatching_resume_def)
  next
    case None
    with assms have "startWatching_open cfg d c (st\<lparr>currentChangeStream := None\<rparr>) =
        (st', effs, out)"
      by (simp add: startWatching_resume_def)
    from startWatching_open_sends(2) [OF this] show ?thesis
      by (simp add: broadcast_updates)
  qed
qed

text \<open>
  C4 (as amended). \<open>startWatching\<close> compares no targets. Called while a change stream
  is current, whatever target is requested, the current one included, it calls
  \<open>close()\<close> on that stream and is suspended. When it is resumed with \<open>close()\<close>
  fulfilled, in whatever state the server then is, and a client exists and the driver
  throws neither for the requested names nor in \<open>watch\<close>, it opens a new stream on the
  requested target, makes it the current one and broadcasts the status. So does a
  viewer's request, received while the target is not fixed, in the event loop.
\<close>

theorem retarget_closes_then_reopens:
  "(currentChangeStream st = Some s \<longrightarrow>
      startWatching_begin cfg who d c st =
        (st\<lparr>open_streams := removeAll s (open_streams st),
            suspended := suspended st @ [AwaitClose who d c]\<rparr>,
         [StreamClose s], Pending) \<and>
      (\<not> locked cfg \<longrightarrow>
         step cfg (WsMessage ws (Data (Some ''selectCollection'') d c)) st =
           (st\<lparr>open_streams := removeAll s (open_streams st),
               suspended := suspended st @ [AwaitClose (FromMessage ws) d c]\<rparr>,
            [StreamClose s]))) \<and>
   (mongoClient st \<noteq> None \<and> target_throws cfg (fst (watch_choice d c)) = None \<and>
    watch_throws cfg (fst (watch_choice d c)) = None \<longrightarrow>
      startWatching_resume cfg None d c st =
        (st\<lparr>currentChangeStream := Some (streams_created st),
            currentWatchDescription := snd (watch_choice d c),
            open_streams := open_streams st @ [streams_created st],
            streams_created := Suc (streams_created st)\<rparr>,
         ConsoleLog (''Watching: '' @ snd (watch_choice d c)) #
         StreamOpen (streams_created st) (fst (watch_choice d c)) #
         broadcast (MsgStatus ''connected'' (snd (watch_choice d c))) st,
         Returned) \<and>
      (k < length (suspended st) \<and> suspended st ! k = AwaitClose (FromMessage ws) d c \<longrightarrow>
         step cfg (Settled k None) st =
           (st\<lparr>currentChangeStream := Some (streams_created st),
               currentWatchDescription := snd (watch_choice d c),
               open_streams := open_streams st @ [streams_created st],
               streams_created := Suc (streams_created st),
               suspended := take k (suspended st) @ drop (Suc k) (suspended st)\<rparr>,
            ConsoleLog (''Watching: '' @ snd (watch_choice d c)) #
            StreamOpen (streams_created st) (fst (watch_choice d c)) #
            broadcast (MsgStatus ''connected'' (snd (watch_choice d c))) st)))"
proof -
  have b: "currentChangeStream st = Some s \<longrightarrow>
      startWatching_begin cfg who d c st =
        (st\<lparr>open_streams := removeAll s (open_streams st),
            suspended := suspended st @ [AwaitClose who d c]\<rparr>,
         [StreamClose s], Pending)" for who
    by (simp add: startWatching_begin_def)
  have m: "currentChangeStream st = Some s \<longrightarrow> \<not> locked cfg \<longrightarrow>
         step cfg (WsMessage ws (Data (Some ''selectCollection'') d c)) st =
           (st\<lparr>open_streams := removeAll s (open_streams st),
               suspended := suspended st @ [AwaitClose (FromMessage ws) d c]\<rparr>,
            [StreamClose s])"
    by (simp add: on_message_def startWatching_begin_def message_catch_def)
  have r: "startWatching_resume cfg None d c st' =
        (st'\<lparr>currentChangeStream := Some (streams_created st'),
            currentWatchDescription := snd (watch_choice d c),
            open_streams := open_streams st' @ [streams_created st'],
            streams_created := Suc (streams_created st')\<rparr>,
         ConsoleLog (''Watching: '' @ snd (watch_choice d c)) #
         StreamOpen (streams_created st') (fst (watch_choice d c)) #
         broadcast (MsgStatus ''connected'' (snd (watch_choice d c))) st',
         Returned)"
    if "mongoClient st' \<noteq> None" "target_throws cfg (fst (watch_choice d c)) = None"
      "watch_throws cfg (fst (watch_choice d c)) = None" for st'
    using that
    by (auto simp: startWatching_resume_def startWatching_open_def Let_def broadcast_def)
  have e: "step cfg (Settled k None) st =
           (st\<lparr>currentChangeStream := Some (streams_created st),
               currentWatchDescription := snd (watch_choice d c),
               open_streams := open_streams st @ [streams_created st],
               streams_created := Suc (streams_created st),
               suspended := take k (suspended st) @ drop (Suc k) (suspended st)\<rparr>,
            ConsoleLog (''Watching: '' @ snd (watch_choice d c)) #
            StreamOpen (streams_created st) (fst (watch_choice d c)) #
            broadcast (MsgStatus ''connected'' (snd (watch_choice d c))) st)"
    if "mongoClient st \<noteq> None" "target_throws cfg (fst (watch_choice d c)) = None"
      "watch_throws cfg (fst (watch_choice d c)) = None"
      "k < length (suspended st)" "suspended st ! k = AwaitClose (FromMessage ws) d c"
    using that
      r [of "st\<lparr>suspended := take k (suspended st) @ drop (Suc k) (suspended st)\<rparr>"]
    by (simp add: resume_def message_catch_def broadcast_updates)
  from b m r [of st] e show ?thesis
    by blast
qed

theorem retarget_closes_then_reopens_witness:
  "currentChangeStream two_viewers = Some 1 \<and>
   step unlocked_config (WsMessage 1 (select ''shop'' ''users'')) two_viewers =
     (awaiting_close, [StreamClose 1]) \<and>
   snd (step unlocked_config (Settled 0 None) awaiting_close) =
     [ConsoleLog ''Watching: shop.users'', StreamOpen 2 (Collection ''shop'' ''users''),
      Send 1 (MsgStatus ''connected'' ''shop.users''),
      Send 2 (MsgStatus ''connected'' ''shop.users'')]"
proof -
  have s: "currentChangeStream two_viewers = Some 1"
    by (simp add: two_viewers_def)
  have l: "\<not> locked unlocked_config"
    by (simp add: locked_def unlocked_config_def)
  have a: "two_viewers\<lparr>open_streams := removeAll 1 (open_streams two_viewers),
       suspended := suspended two_viewers @
         [AwaitClose (FromMessage 1) (Some ''shop'') (Some ''users'')]\<rparr> = awaiting_close"
    by (simp add: awaiting_close_def two_viewers_def)
  have h: "mongoClient awaiting_close \<noteq> None \<and>
      target_throws unlocked_config (fst (watch_choice (Some ''shop'') (Some ''users''))) = None \<and>
      watch_throws unlocked_config (fst (watch_choice (Some ''shop'') (Some ''users''))) = None"
    by (simp add: awaiting_close_def two_viewers_def unlocked_config_def)
  have k: "0 < length (suspended awaiting_close) \<and>
      suspended awaiting_close ! 0 = AwaitClose (FromMessage 1) (Some ''shop'') (Some ''users'')"
    by (simp add: awaiting_close_def)
  have c: "watch_choice (Some ''shop'') (Some ''users'') =
      (Collection ''shop'' ''users'', ''shop.users'')"
    by (simp add: watch_choice_def)
  have n: "streams_created awaiting_close = 2"
    by (simp add: awaiting_close_def two_viewers_def)
  have b: "broadcast (MsgStatus ''connected'' ''shop.users'') awaiting_close =
      [Send 1 (MsgStatus ''connected'' ''shop.users''),
       Send 2 (MsgStatus ''connected'' ''shop.users'')]"
    by (simp add: broadcast_def awaiting_close_def two_viewers_def)
  note t = retarget_closes_then_reopens
  from t [of two_viewers 1 unlocked_config _ "Some ''shop''" "Some ''users''" 1,
      THEN conjunct1] s l
  have "step unlocked_config
      (WsMessage 1 (Data (Some ''selectCollection'') (Some ''shop'') (Some ''users''))) two_viewers =
      (two_viewers\<lparr>open_streams := removeAll 1 (open_streams two_viewers),
         suspended := suspended two_viewers @
           [AwaitClose (FromMessage 1) (Some ''shop'') (Some ''users'')]\<rparr>, [StreamClose 1])"
    by blast
  then have p1: "step unlocked_config (WsMessage 1 (select ''shop'' ''users'')) two_viewers =
     (awaiting_close, [StreamClose 1])"
    by (simp only: a select_def)
  from t [of awaiting_close _ unlocked_config _ "Some ''shop''" "Some ''users''" 1 0,
      THEN conjunct2] h k
  have "step unlocked_config (Settled 0 None) awaiting_close =
      (awaiting_close\<lparr>currentChangeStream := Some (streams_created awaiting_close),
         currentWatchDescription := snd (watch_choice (Some ''shop'') (Some ''users'')),
         open_streams := open_streams awaiting_close @ [streams_created awaiting_close],
         streams_created := Suc (streams_created awaiting_close),
         suspended := take 0 (suspended awaiting_close) @ drop (Suc 0) (suspended awaiting_close)\<rparr>,
       ConsoleLog (''Watching: '' @ snd (watch_choice (Some ''shop'') (Some ''users''))) #
       StreamOpen (streams_created awaiting_close)
         (fst (watch_choice (Some ''shop'') (Some ''users''))) #
       broadcast (MsgStatus ''connected'' (snd (watch_choice (Some ''shop'') (Some ''users''))))
         awaiting_close)"
    by blast
  then have p2: "snd (step unlocked_config (Settled 0 None) awaiting_close) =
     [ConsoleLog ''Watching: shop.users'', StreamOpen 2 (Collection ''shop'' ''users''),
      Send 1 (MsgStatus ''connected'' ''shop.users''),
      Send 2 (MsgStatus ''connected'' ''shop.users'')]"
    by (simp add: c n b)
  from s p1 p2 show ?thesis
    by (simp only: simp_thms)
qed

text \<open>
  C4 as stated fails: \<open>shop.orders\<close> is being watched through stream 1; viewer 1 asks
  for \<open>shop.orders\<close> and \<open>close()\<close> is fulfilled: stream 1 is closed and stream 2
  opened.
\<close>

theorem retarget_to_current_target_reopens:
  "currentWatchDescription two_viewers = ''shop.orders'' \<and>
   currentChangeStream two_viewers = Some 1 \<and>
   run unlocked_config [WsMessage 1 (select ''shop'' ''orders''), Settled 0 None] two_viewers =
     (two_viewers\<lparr>currentChangeStream := Some 2, open_streams := [2], streams_created := 3\<rparr>,
      [StreamClose 1, ConsoleLog ''Watching: shop.orders'',
       StreamOpen 2 (Collection ''shop'' ''orders''),
       Send 1 (MsgStatus ''connected'' ''shop.orders''),
       Send 2 (MsgStatus ''connected'' ''shop.orders'')])"
  by (simp add: two_viewers_def unlocked_config_def select_def on_message_def locked_def
        message_catch_def resume_def startWatching_begin_def startWatching_resume_def
        startWatching_open_def watch_choice_def Let_def broadcast_def)

text \<open>
  C7 (as amended). A \<open>selectCollection\<close> request received while the target is not
  fixed calls \<open>startWatching\<close>, which runs at once when no stream is current and
  otherwise is suspended at \<open>close()\<close> and resumed when that settles, other events
  having been handled in between. In the turn of the event loop in which
  \<open>startWatching\<close> returns, the status event is sent to every connection registered
  with an open socket in that turn, the requester among them like any other, and
  nothing else is sent; in the turn in which it throws, the error is caught and written
  to the console and nothing is sent to any connection; while it is suspended nothing
  is sent.
\<close>

theorem unlocked_request_outcome:
  "\<not> locked cfg \<Longrightarrow>
     (\<forall>st' effs out.
        startWatching_begin cfg (FromMessage ws) d c st = (st', effs, out) \<longrightarrow>
        step cfg (WsMessage ws (Data (Some ''selectCollection'') d c)) st =
          (st', effs @ (case out of Threw e \<Rightarrow> [ConsoleError (''WebSocket message error: '' @ e)]
                        | Returned \<Rightarrow> [] | Pending \<Rightarrow> [])) \<and>
        filter is_send (snd (step cfg (WsMessage ws (Data (Some ''selectCollection'') d c)) st)) =
          (if out = Returned then broadcast (MsgStatus ''connected'' (snd (watch_choice d c))) st
           else [])) \<and>
     (\<forall>k r st' effs out.
        k < length (suspended st) \<and> suspended st ! k = AwaitClose (FromMessage ws) d c \<and>
        startWatching_resume cfg r d c
          (st\<lparr>suspended := take k (suspended st) @ drop (Suc k) (suspended st)\<rparr>) =
          (st', effs, out) \<longrightarrow>
        out \<noteq> Pending \<and>
        step cfg (Settled k r) st =
          (st', effs @ (case out of Threw e \<Rightarrow> [ConsoleError (''WebSocket message error: '' @ e)]
                        | Returned \<Rightarrow> [] | Pending \<Rightarrow> [])) \<and>
        filter is_send (snd (step cfg (Settled k r) st)) =
          (if out = Returned then broadcast (MsgStatus ''connected'' (snd (watch_choice d c))) st
           else []))"
proof -
  assume l: "\<not> locked cfg"
  have a: "step cfg (WsMessage ws (Data (Some ''selectCollection'') d c)) st =
          (st', effs @ (case out of Threw e \<Rightarrow> [ConsoleError (''WebSocket message error: '' @ e)]
                        | Returned \<Rightarrow> [] | Pending \<Rightarrow> [])) \<and>
        filter is_send (snd (step cfg (WsMessage ws (Data (Some ''selectCollection'') d c)) st)) =
          (if out = Returned then broadcast (MsgStatus ''connected'' (snd (watch_choice d c))) st
           else [])"
    if b: "startWatching_begin cfg (FromMessage ws) d c st = (st', effs, out)" for st' effs out
  proof -
    from l b have "step cfg (WsMessage ws (Data (Some ''selectCollection'') d c)) st =
          (st', effs @ (case out of Threw e \<Rightarrow> [ConsoleError (''WebSocket message error: '' @ e)]
                        | Returned \<Rightarrow> [] | Pending \<Rightarrow> []))"
      by (cases out) (simp_all add: on_message_def message_catch_def)
    with startWatching_begin_sends [OF b] show ?thesis
      by (cases out) simp_all
  qed
  have b: "out \<noteq> Pending \<and>
        step cfg (Settled k r) st =
          (st', effs @ (case out of Threw e \<Rightarrow> [ConsoleError (''WebSocket message error: '' @ e)]
                        | Returned \<Rightarrow> [] | Pending \<Rightarrow> [])) \<and>
        filter is_send (snd (step cfg (Settled k r) st)) =
          (if out = Returned then broadcast (MsgStatus ''connected'' (snd (watch_choice d c))) st
           else [])"
    if k: "k < length (suspended st)" "suspended st ! k = AwaitClose (FromMessage ws) d c"
      and r: "startWatching_resume cfg r d c
          (st\<lparr>suspended := take k (suspended st) @ drop (Suc k) (suspended st)\<rparr>) =
          (st', effs, out)" for k r st' effs out
  proof -
    from k r have "step cfg (Settled k r) st =
          (st', effs @ (case out of Threw e \<Rightarrow> [ConsoleError (''WebSocket message error: '' @ e)]
                        | Returned \<Rightarrow> [] | Pending \<Rightarrow> []))"
      by (cases out) (simp_all add: resume_def message_catch_def)
    with startWatching_resume_sends [OF r] show ?thesis
      by (cases out) (simp_all add: broadcast_updates)
  qed
  from a b show ?thesis
    by blast
qed

theorem unlocked_request_outcome_witness:
  "\<not> locked unlocked_config \<and>
   step unlocked_config (WsMessage 1 (select ''shop'' ''users'')) two_viewers =
     (awaiting_close, [StreamClose 1]) \<and>
   filter is_send (snd (step unlocked_config (Settled 0 None) awaiting_close)) =
     [Send 1 (MsgStatus ''connected'' ''shop.users''),
      Send 2 (MsgStatus ''connected'' ''shop.users'')] \<and>
   filter is_send
     (snd (run unlocked_config
            [WsMessage 1 (select ''shop'' ''users''), WsClose 2, Settled 0 None] two_viewers)) =
     [Send 1 (MsgStatus ''connected'' ''shop.users'')]"
proof -
  have p3: "filter is_send
     (snd (run unlocked_config
            [WsMessage 1 (select ''shop'' ''users''), WsClose 2, Settled 0 None] two_viewers)) =
     [Send 1 (MsgStatus ''connected'' ''shop.users'')]"
    by (simp add: two_viewers_def unlocked_config_def select_def on_message_def locked_def
          message_catch_def resume_def on_close_def startWatching_begin_def
          startWatching_resume_def startWatching_open_def watch_choice_def Let_def
          broadcast_def)
  have l: "\<not> locked unlocked_config"
    by (simp add: locked_def unlocked_config_def)
  have g: "startWatching_begin unlocked_config (FromMessage 1) (Some ''shop'') (Some ''users'')
      two_viewers = (awaiting_close, [StreamClose 1], Pending)"
    by (simp add: startWatching_begin_def awaiting_close_def two_viewers_def)
  have k: "0 < length (suspended awaiting_close) \<and>
      suspended awaiting_close ! 0 = AwaitClose (FromMessage 1) (Some ''shop'') (Some ''users'')"
    by (simp add: awaiting_close_def)
  have r: "startWatching_resume unlocked_config None (Some ''shop'') (Some ''users'')
      (awaiting_close\<lparr>suspended :=
         take 0 (suspended awaiting_close) @ drop (Suc 0) (suspended awaiting_close)\<rparr>) =
      (two_viewers\<lparr>currentChangeStream := Some 2, currentWatchDescription := ''shop.users'',
         open_streams := [2], streams_created := 3\<rparr>,
       [ConsoleLog ''Watching: shop.users'', StreamOpen 2 (Collection ''shop'' ''users''),
        Send 1 (MsgStatus ''connected'' ''shop.users''),
        Send 2 (MsgStatus ''connected'' ''shop.users'')],
       Returned)"
    by (simp add: awaiting_close_def two_viewers_def unlocked_config_def
          startWatching_resume_def startWatching_open_def watch_choice_def Let_def broadcast_def)
  have c: "snd (watch_choice (Some ''shop'') (Some ''users'')) = ''shop.users''"
    by (simp add: watch_choice_def)
  have b: "broadcast (MsgStatus ''connected'' ''shop.users'') awaiting_close =
      [Send 1 (MsgStatus ''connected'' ''shop.users''),
       Send 2 (MsgStatus ''connected'' ''shop.users'')]"
    by (simp add: broadcast_def awaiting_close_def two_viewers_def)
  note t = unlocked_request_outcome [OF l, of 1 "Some ''shop''" "Some ''users''"]
  from t [of two_viewers, THEN conjunct1] g
  have "step unlocked_config
      (WsMessage 1 (Data (Some ''selectCollection'') (Some ''shop'') (Some ''users''))) two_viewers =
      (awaiting_close, [StreamClose 1] @ (case Pending of
          Threw e \<Rightarrow> [ConsoleError (''WebSocket message error: '' @ e)]
        | Returned \<Rightarrow> [] | Pending \<Rightarrow> []))"
    by blast
  then have p1: "step unlocked_config (WsMessage 1 (select ''shop'' ''users'')) two_viewers =
     (awaiting_close, [StreamClose 1])"
    by (simp add: select_def)
  from t [of awaiting_close, THEN conjunct2] k r
  have "filter is_send (snd (step unlocked_config (Settled 0 None) awaiting_close)) =
      (if Returned = Returned then
         broadcast (MsgStatus ''connected'' (snd (watch_choice (Some ''shop'') (Some ''users''))))
           awaiting_close
       else [])"
    by blast
  then have p2: "filter is_send (snd (step unlocked_config (Settled 0 None) awaiting_close)) =
     [Send 1 (MsgStatus ''connected'' ''shop.users''),
      Send 2 (MsgStatus ''connected'' ''shop.users'')]"
    by (simp add: c b)
  from l p1 p2 p3 show ?thesis
    by (simp only: simp_thms)
qed

text \<open>
  C7 as stated fails: the driver rejects the database name \<open>a.b\<close>; viewer 1 asks for it
  while the target is not fixed, both viewers' sockets being open, and \<open>close()\<close> is
  fulfilled. The old stream is closed, the error is logged, and no error (nor anything
  else) is sent to either viewer.
\<close>

theorem failed_retarget_not_broadcast:
  "\<not> locked strict_config \<and>
   clients two_viewers = [1, 2] \<and>
   readyState two_viewers 1 = OPEN \<and> readyState two_viewers 2 = OPEN \<and>
   snd (run strict_config [WsMessage 1 (select ''a.b'' ''*''), Settled 0 None] two_viewers) =
     [StreamClose 1,
      ConsoleError ''WebSocket message error: Database names cannot contain the character .''] \<and>
   filter is_send
     (snd (run strict_config [WsMessage 1 (select ''a.b'' ''*''), Settled 0 None] two_viewers)) = []"
  by (simp add: two_viewers_def strict_config_def unlocked_config_def locked_def select_def
        on_message_def message_catch_def resume_def startWatching_begin_def
        startWatching_resume_def startWatching_open_def watch_choice_def Let_def)

subsection \<open>Late joiners\<close>

lemma broadcast_no_change_send:
  "\<not> is_change_send (Send 0 m) \<Longrightarrow> e \<in> set (broadcast m st) \<Longrightarrow> \<not> is_change_send e"
  by (cases m) (auto simp: broadcast_def split: if_splits)

lemma startWatching_open_no_change_send:
  "startWatching_open cfg d c st = (st', effs, out) \<Longrightarrow> e \<in> set effs \<Longrightarrow> \<not> is_change_send e"
  by (auto simp: startWatching_open_def Let_def broadcast_def split: option.splits if_splits)

lemma startWatching_begin_no_change_send:
  "startWatching_begin cfg who d c st = (st', effs, out) \<Longrightarrow> e \<in> set effs \<Longrightarrow>
     \<not> is_change_send e"
  by (auto simp: startWatching_begin_def split: option.splits
        dest: startWatching_open_no_change_send)

lemma startWatching_resume_no_change_send:
  "startWatching_resume cfg r d c st = (st', effs, out) \<Longrightarrow> e \<in> set effs \<Longrightarrow>
     \<not> is_change_send e"
  by (auto simp: startWatching_resume_def split: option.splits
        dest: startWatching_open_no_change_send)

lemma message_catch_no_change_send:
  "message_catch (st, effs, out) = (st', effs') \<Longrightarrow> \<forall>e \<in> set effs. \<not> is_change_send e \<Longrightarrow>
     e \<in> set effs' \<Longrightarrow> \<not> is_change_send e"
  by (cases out) (auto simp: message_catch_def)

lemma connect_catch_no_change_send:
  "connect_catch (st, effs, out) = (st', effs') \<Longrightarrow> \<forall>e \<in> set effs. \<not> is_change_send e \<Longrightarrow>
     e \<in> set effs' \<Longrightarrow> \<not> is_change_send e"
  by (cases out) (auto simp: connect_catch_def broadcast_def split: if_splits)

lemma resume_no_change_send:
  assumes "resume cfg k r st = (st', effs)" and "e \<in> set effs"
  shows "\<not> is_change_send e"
proof (cases k)
  case (AwaitClose who d c)
  obtain st1 effs1 out1 where o: "startWatching_resume cfg r d c st = (st1, effs1, out1)"
    by (cases "startWatching_resume cfg r d c st") auto
  then have n: "\<forall>e \<in> set effs1. \<not> is_change_send e"
    by (blast dest: startWatching_resume_no_change_send)
  from assms AwaitClose o show ?thesis
    by (cases who)
       (auto simp: resume_def
          dest: message_catch_no_change_send [OF _ n] connect_catch_no_change_send [OF _ n])
next
  case AwaitConnect
  show ?thesis
  proof (cases r)
    case (Some x)
    with assms AwaitConnect show ?thesis
      by (auto simp: resume_def dest: connect_catch_no_change_send)
  next
    case None
    obtain st1 effs1 out1 where o:
      "startWatching_begin cfg FromConnect (Some (MONGODB_DATABASE cfg))
         (Some (MONGODB_COLLECTION cfg)) st = (st1, effs1, out1)"
      by (cases "startWatching_begin cfg FromConnect (Some (MONGODB_DATABASE cfg))
         (Some (MONGODB_COLLECTION cfg)) st") auto
    then have n: "\<forall>e \<in> set (ConsoleLog ''Connected to MongoDB'' # effs1). \<not> is_change_send e"
      by (auto dest: startWatching_begin_no_change_send)
    from assms AwaitConnect None o show ?thesis
      by (auto simp: resume_def dest: connect_catch_no_change_send [OF _ n])
  qed
qed

lemma on_message_no_change_send:
  assumes "on_message cfg ws message st = (st', effs)"
    and "e \<in> set effs"
  shows "\<not> is_change_send e"
proof (cases message)
  case (Unparseable x)
  with assms show ?thesis
    by (auto simp: on_message_def)
next
  case (Data ty d c)
  obtain st1 effs1 out1 where
    o: "startWatching_begin cfg (FromMessage ws) d c st = (st1, effs1, out1)"
    by (cases "startWatching_begin cfg (FromMessage ws) d c st") auto
  then have n: "\<forall>e \<in> set effs1. \<not> is_change_send e"
    by (blast dest: startWatching_begin_no_change_send)
  from assms Data o show ?thesis
    by (auto simp: on_message_def split: if_splits dest: message_catch_no_change_send [OF _ n])
qed

lemma step_change_send:
  assumes "e \<in> set (snd (step cfg ev st))" and "is_change_send e"
  shows "\<exists>s now ch m. ev = StreamChange s now ch \<and>
     change_message cfg (formatChangeEvent now ch) = Some m \<and> e \<in> set (broadcast m st)"
proof (cases ev)
  case (StreamChange s now ch)
  with assms show ?thesis
    by (auto simp: on_change_def split: if_splits option.splits)
next
  case (StreamError s x)
  with assms show ?thesis
    by (auto simp: on_stream_error_def broadcast_def split: if_splits)
next
  case (Settled k r)
  with assms show ?thesis
    by (cases "resume cfg (suspended st ! k) r
          (st\<lparr>suspended := take k (suspended st) @ drop (Suc k) (suspended st)\<rparr>)")
       (auto split: if_splits dest: resume_no_change_send)
next
  case (WsMessage ws message)
  with assms show ?thesis
    by (cases "on_message cfg ws message st")
       (auto dest: on_message_no_change_send)
qed (use assms in \<open>auto simp: on_connection_def on_error_def connectMongoDB_def\<close>)

lemma run_change_send:
  "e \<in> set (snd (run cfg evs st)) \<Longrightarrow> is_change_send e \<Longrightarrow>
     \<exists>s now ch m ws. StreamChange s now ch \<in> set evs \<and>
       change_message cfg (formatChangeEvent now ch) = Some m \<and> e = Send ws m"
proof (induction evs arbitrary: st)
  case Nil
  then show ?case by simp
next
  case (Cons ev evs)
  obtain st1 out1 where s: "step cfg ev st = (st1, out1)"
    by (cases "step cfg ev st") auto
  obtain st2 out2 where r: "run cfg evs st1 = (st2, out2)"
    by (cases "run cfg evs st1") auto
  from Cons.prems(1) s r consider "e \<in> set out1" | "e \<in> set out2"
    by auto
  then show ?case
  proof cases
    case 1
    with s have "e \<in> set (snd (step cfg ev st))"
      by simp
    from step_change_send [OF this Cons.prems(2)] obtain s now ch m where
      ev: "ev = StreamChange s now ch" and
      m: "change_message cfg (formatChangeEvent now ch) = Some m" and
      b: "e \<in> set (broadcast m st)"
      by blast
    from b obtain ws where "e = Send ws m"
      by (auto simp: broadcast_def split: if_splits)
    moreover from ev have "StreamChange s now ch \<in> set (ev # evs)"
      by simp
    ultimately show ?thesis
      using m by blast
  next
    case 2
    with r have "e \<in> set (snd (run cfg evs st1))"
      by simp
    from Cons.IH [OF this Cons.prems(2)] obtain s now ch m ws where
      i: "StreamChange s now ch \<in> set evs" and
      m: "change_message cfg (formatChangeEvent now ch) = Some m" "e = Send ws m"
      by blast
    from i have "StreamChange s now ch \<in> set (ev # evs)"
      by simp
    with m show ?thesis
      by blast
  qed
qed

text \<open>
  C9. Publishing a change event changes nothing in the state and sends nothing to a
  connection that is not registered at that moment. When that connection joins
  afterwards, whatever events follow, every change event it is ever sent is the event
  of a notification the change stream emits after the join: an event published before
  is never sent to it.
\<close>

theorem late_joiner_gets_no_past_event:
  "c \<notin> set (clients st) \<Longrightarrow>
     fst (step cfg (StreamChange s now ch) st) = st \<and>
     (\<forall>m. Send c m \<notin> set (snd (step cfg (StreamChange s now ch) st))) \<and>
     (\<forall>evs m. is_change_send (Send c m) \<and>
        Send c m \<in> set (snd (run cfg (WsConnection c # evs) st)) \<longrightarrow>
        (\<exists>s' now' ch'. StreamChange s' now' ch' \<in> set evs \<and>
           change_message cfg (formatChangeEvent now' ch') = Some m))"
proof -
  assume c: "c \<notin> set (clients st)"
  have a: "fst (step cfg (StreamChange s now ch) st) = st"
    by simp
  from c have b: "\<forall>m. Send c m \<notin> set (snd (step cfg (StreamChange s now ch) st))"
    by (auto simp: on_change_def broadcast_sends split: option.splits)
  have d: "\<forall>evs m. is_change_send (Send c m) \<and>
        Send c m \<in> set (snd (run cfg (WsConnection c # evs) st)) \<longrightarrow>
        (\<exists>s' now' ch'. StreamChange s' now' ch' \<in> set evs \<and>
           change_message cfg (formatChangeEvent now' ch') = Some m)"
  proof (intro allI impI)
    fix evs m
    assume "is_change_send (Send c m) \<and>
        Send c m \<in> set (snd (run cfg (WsConnection c # evs) st))"
    from run_change_send [OF this [THEN conjunct2] this [THEN conjunct1]]
    show "\<exists>s' now' ch'. StreamChange s' now' ch' \<in> set evs \<and>
           change_message cfg (formatChangeEvent now' ch') = Some m"
      by auto
  qed
  from a b d show ?thesis
    by blast
qed

theorem late_joiner_gets_no_past_event_witness:
  "3 \<notin> set (clients two_viewers) \<and>
   fst (step unlocked_config (StreamChange 1 ''t'' insert_event) two_viewers) = two_viewers \<and>
   Send 3 (MsgWelcome ''Welcome to Mongo TV'') \<notin>
     set (snd (step unlocked_config (StreamChange 1 ''t'' insert_event) two_viewers)) \<and>
   snd (step unlocked_config (WsConnection 3) two_viewers) =
     [Send 3 (MsgWelcome ''Welcome to Mongo TV''), Send 3 (MsgStatus ''connected'' ''shop.orders'')]"
proof -
  have c: "3 \<notin> set (clients two_viewers)"
    by (simp add: two_viewers_def)
  have j: "snd (step unlocked_config (WsConnection 3) two_viewers) =
     [Send 3 (MsgWelcome ''Welcome to Mongo TV''), Send 3 (MsgStatus ''connected'' ''shop.orders'')]"
    by (simp add: two_viewers_def on_connection_def)
  from late_joiner_gets_no_past_event [OF c, of unlocked_config 1 "''t''" insert_event] c j
  show ?thesis
    by blast
qed

subsection \<open>One change stream at a time\<close>

lemma startWatching_open_single_stream:
  "open_streams st = [] \<Longrightarrow> startWatching_open cfg d c st = (st', effs, out) \<Longrightarrow>
     single_stream st'"
  by (auto simp: startWatching_open_def Let_def single_stream_def split: option.splits if_splits)

text \<open>
  When a request is followed at once by the settling of its own \<open>close()\<close>, no other
  call of \<open>startWatching\<close> running in between, at most one change stream is open
  afterwards, the current one.
\<close>

lemma uninterrupted_request_single_stream:
  assumes "single_stream st"
  shows "single_stream (fst (run cfg [WsMessage ws m, Settled (length (suspended st)) r] st))"
proof (cases "\<exists>d c. m = Data (Some ''selectCollection'') d c \<and> \<not> locked cfg")
  case False
  with assms show ?thesis
    by (cases m) (auto simp: on_message_def)
next
  case True
  then obtain d c where m: "m = Data (Some ''selectCollection'') d c" and l: "\<not> locked cfg"
    by blast
  show ?thesis
  proof (cases "currentChangeStream st")
    case None
    with assms have e: "open_streams st = []"
      by (auto simp: single_stream_def split: list.splits)
    obtain st' effs out where o: "startWatching_open cfg d c st = (st', effs, out)"
      by (cases "startWatching_open cfg d c st") auto
    from startWatching_open_frame [OF o] have "suspended st' = suspended st"
      by simp
    with o m l None startWatching_open_single_stream [OF e o] show ?thesis
      by (cases out) (simp_all add: on_message_def startWatching_begin_def message_catch_def)
  next
    case (Some s)
    with assms have e: "removeAll s (open_streams st) = []"
      by (auto simp: single_stream_def split: list.splits)
    let ?st = "st\<lparr>open_streams := []\<rparr>"
    obtain st' effs out where o: "startWatching_resume cfg r d c ?st = (st', effs, out)"
      by (cases "startWatching_resume cfg r d c ?st") auto
    have "single_stream st'"
    proof (cases r)
      case None
      with o have "startWatching_open cfg d c (?st\<lparr>currentChangeStream := None\<rparr>) =
          (st', effs, out)"
        by (simp add: startWatching_resume_def)
      from startWatching_open_single_stream [OF _ this] show ?thesis
        by simp
    next
      case (Some x)
      with o show ?thesis
        by (auto simp: startWatching_resume_def single_stream_def)
    qed
    moreover from m l Some e o
    have "fst (run cfg [WsMessage ws m, Settled (length (suspended st)) r] st) = st'"
      by (cases out)
         (simp_all add: on_message_def startWatching_begin_def message_catch_def resume_def)
    ultimately show ?thesis
      by simp
  qed
qed

text \<open>
  C2 fails on the code. From the initial state the server starts watching (stream 0),
  two viewers join and each sends a \<open>selectCollection\<close> request, the second arriving
  while the first call of \<open>startWatching\<close> awaits \<open>close()\<close>. Both calls close
  stream 0; the first then opens stream 1, the second overwrites \<open>currentChangeStream\<close>
  and opens stream 2. No \<open>close()\<close> is ever called on stream 1: two change streams
  are open, and a notification on stream 1 is still broadcast.
\<close>

theorem interleaved_retargets_overlap:
  "open_streams (fst (run unlocked_config racing_requests initial)) = [1, 2] \<and>
   currentChangeStream (fst (run unlocked_config racing_requests initial)) = Some 2 \<and>
   filter is_stream_call (snd (run unlocked_config racing_requests initial)) =
     [StreamOpen 0 Deployment, StreamClose 0, StreamClose 0,
      StreamOpen 1 (Collection ''shop'' ''orders''),
      StreamOpen 2 (Collection ''shop'' ''users'')] \<and>
   snd (step unlocked_config (StreamChange 1 ''t'' insert_event)
          (fst (run unlocked_config racing_requests initial))) =
     broadcast
       (MsgChange (OpName ''INSERT'') ''shop.orders'' ''t'' ''yaml''
          (Obj [(''b'', Str ''x''), (''a'', Num 1), (''_id'', Str ''65a1'')])
          (formatChangeEvent ''t'' insert_event))
       (fst (run unlocked_config racing_requests initial)) \<and>
   clients (fst (run unlocked_config racing_requests initial)) = [1, 2] \<and>
   readyState (fst (run unlocked_config racing_requests initial)) 1 = OPEN \<and>
   readyState (fst (run unlocked_config racing_requests initial)) 2 = OPEN"
proof -
  have r: "run unlocked_config racing_requests initial =
    (\<lparr> clients = [1, 2], readyState = (\<lambda>ws. CLOSED)(1 := OPEN, 2 := OPEN),
       mongoClient = Some 0, currentChangeStream = Some 2,
       currentWatchDescription = ''shop.users'', open_streams = [1, 2],
       streams_created = 3, clients_created = 1, suspended = [] \<rparr>,
     [ConsoleLog ''Server running on http://localhost:3000'',
      ConsoleLog ''Mongo TV Starting...'',
      ConsoleLog ''Connecting to MongoDB: mongodb://localhost:27017/?replicaSet=rs0'',
      ClientConnect 0, ConsoleLog ''Connected to MongoDB'', ConsoleLog ''Watching: *.*'',
      StreamOpen 0 Deployment, OnSigint,
      Send 1 (MsgWelcome ''Welcome to Mongo TV''), Send 1 (MsgStatus ''connected'' ''*.*''),
      Send 2 (MsgWelcome ''Welcome to Mongo TV''), Send 2 (MsgStatus ''connected'' ''*.*''),
      StreamClose 0, StreamClose 0,
      ConsoleLog ''Watching: shop.orders'', StreamOpen 1 (Collection ''shop'' ''orders''),
      Send 1 (MsgStatus ''connected'' ''shop.orders''),
      Send 2 (MsgStatus ''connected'' ''shop.orders''),
      ConsoleLog ''Watching: shop.users'', StreamOpen 2 (Collection ''shop'' ''users''),
      Send 1 (MsgStatus ''connected'' ''shop.users''),
      Send 2 (MsgStatus ''connected'' ''shop.users'')])"
    by (simp add: Let_def racing_requests_def startup_def select_def unlocked_config_def
          initial_def connectMongoDB_def resume_def startWatching_begin_def
          startWatching_open_def watch_choice_def connect_catch_def broadcast_def
          on_connection_def on_message_def locked_def message_catch_def
          startWatching_resume_def)
  have c: "change_message unlocked_config (formatChangeEvent ''t'' insert_event) =
      Some (MsgChange (OpName ''INSERT'') ''shop.orders'' ''t'' ''yaml''
          (Obj [(''b'', Str ''x''), (''a'', Num 1), (''_id'', Str ''65a1'')])
          (formatChangeEvent ''t'' insert_event))"
    by (simp add: change_message_def toYaml_def payload_of_def unlocked_config_def
          formatChangeEvent_def insert_event_def operation_of_def operationMap_def
          or_unknown_def)
  show ?thesis
    unfolding r by (simp add: on_change_def c)
qed

end
